theory Spec2Isabelle
  imports Main
begin

section \<open>The e-cart application (src/app/app.py) over a model of its Db2 driver\<close>

text \<open>
  The application is a set of request handlers, each a short sequence of calls into the
  ibm_db_dbi driver. The driver and the database are not part of the repository, so they are
  the environment of the model:
  \<^item> the database is a \<open>store\<close>: the rows of the three tables and the identity counters;
  \<^item> a connection works on a copy of the committed store (autocommit is off in ibm_db_dbi),
    which \<open>commit\<close> publishes and \<open>rollback\<close> discards; the execution is sequential, with
    one client;
  \<^item> every driver call may raise: the \<open>faults\<close> script of the world gives the outcome of
    each driver call in turn (\<open>Some m\<close>: the call raises an exception with text \<open>m\<close>;
    \<open>None\<close>, or an exhausted script: the environment lets the call go on). An error the
    database answers with for reasons outside the model (an unreachable server, a missing
    table, SQL0601N for an existing one, an INTEGER out of range) is such a fault;
  \<^item> the overflow of a DECIMAL(10,2) amount is an error of the statement itself: the total
    query raises when the subtotal of a cart line does not fit the cast
    \<open>DECIMAL(p.price * c.quantity, 10, 2)\<close>, and the insert of an order raises when its
    amount does not fit the column \<open>total_amount DECIMAL(10,2)\<close>;
  \<^item> every driver call and every \<open>time.sleep\<close> is recorded in the \<open>trace\<close>, with the text
    of the error when it raised.
  Amounts of money are integers, in cents. A Python float read from a DECIMAL value is the
  amount it approximates (the nearest double of an amount with two decimals is zero only for
  the amount zero, and formats back to it with \<open>.2f\<close>). What the database stores when the
  driver binds such a float to a DECIMAL(10,2) parameter is not decided by the repository: it
  is the function \<open>float_to_decimal\<close> of the world.
\<close>

subsection \<open>Python exceptions\<close>

datatype exn = Exception string | ValueError string | TypeError string | IndexError string

fun str_of_exn :: "exn \<Rightarrow> string" where
  "str_of_exn (Exception m) = m"
| "str_of_exn (ValueError m) = m"
| "str_of_exn (TypeError m) = m"
| "str_of_exn (IndexError m) = m"

subsection \<open>The tables\<close>

record product_row =
  p_id :: int
  p_name :: string
  p_description :: string
  p_price :: int
  p_stock :: int
  p_category :: string

record cart_row =
  c_id :: int
  c_product_id :: int
  c_quantity :: int

record order_row =
  o_id :: int
  o_total_amount :: int
  o_status :: string

record store =
  products :: "product_row list"
  cart_items :: "cart_row list"
  orders :: "order_row list"
  next_product_id :: int
  next_cart_id :: int
  next_order_id :: int

subsection \<open>The SQL statements of the application\<close>

datatype val = NullV | IntV int | DecV int

type_synonym row = "val list"

datatype sql =
    CreateTable string
  | SelectCountProducts
  | InsertProduct string string int int string
  | SelectCartItem int
  | UpdateCartQuantity int val
  | InsertCartItem int int
  | DeleteCartItem int
  | SelectCartTotal
  | InsertOrder int string
  | DeleteCartItems
  | SelectDummy

text \<open>
  \<open>SELECT COALESCE(SUM(DECIMAL(p.price * c.quantity, 10, 2)), 0) FROM cart_items c
  JOIN products p ON c.product_id = p.id\<close>: one summand for every pair of a cart row and
  a product with the cart row's product id.
\<close>

definition cart_total :: "store \<Rightarrow> int" where
  "cart_total s =
     sum_list (map (\<lambda>c. sum_list (map (\<lambda>p. p_price p * c_quantity c)
                                      (filter (\<lambda>p. p_id p = c_product_id c) (products s))))
                   (cart_items s))"

text \<open>
  The subtotals the total query casts with \<open>DECIMAL(p.price * c.quantity, 10, 2)\<close>, one for
  every pair of a cart row and its product. An amount in cents fits a DECIMAL of precision
  \<open>p\<close> and scale 2 when it has at most \<open>p\<close> digits; Db2 answers SQL0413N otherwise. The
  SUM of DECIMAL(10,2) values is a DECIMAL(31,2).
\<close>

definition cart_lines :: "store \<Rightarrow> int list" where
  "cart_lines s =
     concat (map (\<lambda>c. map (\<lambda>p. p_price p * c_quantity c)
                          (filter (\<lambda>p. p_id p = c_product_id c) (products s)))
                 (cart_items s))"

definition fits_decimal :: "nat \<Rightarrow> int \<Rightarrow> bool" where
  "fits_decimal p a = (\<bar>a\<bar> < 10 ^ p)"

definition total_fits :: "store \<Rightarrow> bool" where
  "total_fits s = (list_all (fits_decimal 10) (cart_lines s) \<and> fits_decimal 31 (cart_total s))"

definition overflow_error :: exn where
  "overflow_error =
     Exception ''SQL0413N  Overflow occurred during numeric data type conversion.  SQLSTATE=22003''"

text \<open>The changes the statements make to a store.\<close>

definition insert_cart_item :: "int \<Rightarrow> int \<Rightarrow> store \<Rightarrow> store" where
  "insert_cart_item pid q s =
     s\<lparr>cart_items := cart_items s @
          [\<lparr>c_id = next_cart_id s, c_product_id = pid, c_quantity = q\<rparr>],
       next_cart_id := next_cart_id s + 1\<rparr>"

definition update_cart_quantity :: "int \<Rightarrow> val \<Rightarrow> store \<Rightarrow> store" where
  "update_cart_quantity q i s =
     s\<lparr>cart_items :=
         map (\<lambda>c. if IntV (c_id c) = i then c\<lparr>c_quantity := q\<rparr> else c) (cart_items s)\<rparr>"

definition insert_order :: "int \<Rightarrow> string \<Rightarrow> store \<Rightarrow> store" where
  "insert_order a st s =
     s\<lparr>orders := orders s @ [\<lparr>o_id = next_order_id s, o_total_amount = a, o_status = st\<rparr>],
       next_order_id := next_order_id s + 1\<rparr>"

text \<open>
  What a statement does once the environment lets it run: an error of the statement, or the
  new store and the result set. \<open>conv\<close> is the conversion of a float parameter to
  DECIMAL(10,2); the amount of \<open>InsertOrder\<close> is such a float.
\<close>

fun run_sql :: "(int \<Rightarrow> int) \<Rightarrow> sql \<Rightarrow> store \<Rightarrow> exn + store \<times> row list" where
  "run_sql conv (CreateTable t) s = Inr (s, [])"
| "run_sql conv SelectCountProducts s = Inr (s, [[IntV (int (length (products s)))]])"
| "run_sql conv (InsertProduct n d pr st cat) s =
     Inr (s\<lparr>products := products s @
              [\<lparr>p_id = next_product_id s, p_name = n, p_description = d, p_price = pr,
                p_stock = st, p_category = cat\<rparr>],
            next_product_id := next_product_id s + 1\<rparr>, [])"
| "run_sql conv (SelectCartItem pid) s =
     Inr (s, map (\<lambda>c. [IntV (c_id c), IntV (c_quantity c)])
                 (filter (\<lambda>c. c_product_id c = pid) (cart_items s)))"
| "run_sql conv (UpdateCartQuantity q i) s = Inr (update_cart_quantity q i s, [])"
| "run_sql conv (InsertCartItem pid q) s = Inr (insert_cart_item pid q s, [])"
| "run_sql conv (DeleteCartItem i) s =
     Inr (s\<lparr>cart_items := filter (\<lambda>c. c_id c \<noteq> i) (cart_items s)\<rparr>, [])"
| "run_sql conv SelectCartTotal s =
     (if total_fits s then Inr (s, [[DecV (cart_total s)]])
      else Inl overflow_error)"
| "run_sql conv (InsertOrder t st) s =
     (if fits_decimal 10 (conv t) then Inr (insert_order (conv t) st s, [])
      else Inl overflow_error)"
| "run_sql conv DeleteCartItems s = Inr (s\<lparr>cart_items := []\<rparr>, [])"
| "run_sql conv SelectDummy s = Inr (s, [[IntV 1]])"

subsection \<open>The world: database, open connections, fault script, trace\<close>

datatype conn = Conn nat

datatype cursor = Cursor conn

datatype call =
    Connect
  | MkCursor conn
  | Execute conn sql
  | Fetchone conn
  | CursorClose conn
  | Commit conn
  | Rollback conn
  | Close conn
  | Sleep int

record world =
  db :: store
  sessions :: "nat \<rightharpoonup> store"
  next_conn :: nat
  result_set :: "row list"
  float_to_decimal :: "int \<Rightarrow> int"
  faults :: "string option list"
  trace :: "(call \<times> string option) list"

type_synonym 'a io = "world \<Rightarrow> (exn + 'a) \<times> world"

definition ret :: "'a \<Rightarrow> 'a io" where
  "ret v w = (Inr v, w)"

definition raise :: "exn \<Rightarrow> 'a io" where
  "raise e w = (Inl e, w)"

text \<open>Sequencing: an exception of the first part skips the second.\<close>

definition and_then :: "'a io \<Rightarrow> ('a \<Rightarrow> 'b io) \<Rightarrow> 'b io" where
  "and_then m f w = (case m w of (Inl e, w') \<Rightarrow> (Inl e, w') | (Inr v, w') \<Rightarrow> f v w')"

text \<open>\<open>try: m  except Exception as e: h e\<close>\<close>

definition try_except :: "'a io \<Rightarrow> (exn \<Rightarrow> 'a io) \<Rightarrow> 'a io" where
  "try_except m h w = (case m w of (Inl e, w') \<Rightarrow> h e w' | (Inr v, w') \<Rightarrow> (Inr v, w'))"

text \<open>
  \<open>try: m  finally: fin\<close>: the final part always runs; when it raises, its exception
  replaces the outcome of \<open>m\<close>.
\<close>

definition try_finally :: "'a io \<Rightarrow> unit io \<Rightarrow> 'a io" where
  "try_finally m fin w =
     (case m w of (r, w') \<Rightarrow>
        (case fin w' of (Inl e, w'') \<Rightarrow> (Inl e, w'') | (Inr u, w'') \<Rightarrow> (r, w'')))"

definition next_fault :: "world \<Rightarrow> string option \<times> world" where
  "next_fault w = (case faults w of [] \<Rightarrow> (None, w) | f # fs \<Rightarrow> (f, w\<lparr>faults := fs\<rparr>))"

definition log_call :: "call \<Rightarrow> string option \<Rightarrow> world \<Rightarrow> world" where
  "log_call c r w = w\<lparr>trace := trace w @ [(c, r)]\<rparr>"

text \<open>
  A driver call: it raises when the script says so, and does its work otherwise, which may
  raise on its own. The trace gets the call and the text of the error it raised, if any.
\<close>

fun raised :: "exn + 'a \<Rightarrow> string option" where
  "raised (Inl e) = Some (str_of_exn e)"
| "raised (Inr v) = None"

definition driver_call :: "call \<Rightarrow> 'a io \<Rightarrow> 'a io" where
  "driver_call c work w =
     (case next_fault w of
        (Some m, w1) \<Rightarrow> (Inl (Exception m), log_call c (Some m) w1)
      | (None, w1) \<Rightarrow> (case work w1 of (r, w2) \<Rightarrow> (r, log_call c (raised r) w2)))"

definition closed_error :: exn where
  "closed_error = Exception ''Connection is no longer active.''"

text \<open>\<open>ibm_db_dbi.connect(DB2_CONN_STR, "", "")\<close>\<close>

definition connect :: "conn io" where
  "connect = driver_call Connect
     (\<lambda>w. (Inr (Conn (next_conn w)),
           w\<lparr>sessions := (sessions w)(next_conn w \<mapsto> db w), next_conn := Suc (next_conn w)\<rparr>))"

fun mk_cursor :: "conn \<Rightarrow> cursor io" where
  "mk_cursor (Conn n) = driver_call (MkCursor (Conn n))
     (\<lambda>w. case sessions w n of None \<Rightarrow> (Inl closed_error, w)
          | Some s \<Rightarrow> (Inr (Cursor (Conn n)), w))"

fun execute :: "cursor \<Rightarrow> sql \<Rightarrow> unit io" where
  "execute (Cursor (Conn n)) q = driver_call (Execute (Conn n) q)
     (\<lambda>w. case sessions w n of None \<Rightarrow> (Inl closed_error, w)
          | Some s \<Rightarrow>
              (case run_sql (float_to_decimal w) q s of
                 Inl e \<Rightarrow> (Inl e, w)
               | Inr (s', rows) \<Rightarrow>
                   (Inr (), w\<lparr>sessions := (sessions w)(n \<mapsto> s'), result_set := rows\<rparr>)))"

fun fetchone :: "cursor \<Rightarrow> row option io" where
  "fetchone (Cursor (Conn n)) = driver_call (Fetchone (Conn n))
     (\<lambda>w. case result_set w of [] \<Rightarrow> (Inr None, w)
          | r # rs \<Rightarrow> (Inr (Some r), w\<lparr>result_set := rs\<rparr>))"

fun cursor_close :: "cursor \<Rightarrow> unit io" where
  "cursor_close (Cursor (Conn n)) = driver_call (CursorClose (Conn n)) (\<lambda>w. (Inr (), w))"

fun commit :: "conn \<Rightarrow> unit io" where
  "commit (Conn n) = driver_call (Commit (Conn n))
     (\<lambda>w. case sessions w n of None \<Rightarrow> (Inl closed_error, w)
          | Some s \<Rightarrow> (Inr (), w\<lparr>db := s\<rparr>))"

fun rollback :: "conn \<Rightarrow> unit io" where
  "rollback (Conn n) = driver_call (Rollback (Conn n))
     (\<lambda>w. case sessions w n of None \<Rightarrow> (Inl closed_error, w)
          | Some s \<Rightarrow> (Inr (), w\<lparr>sessions := (sessions w)(n \<mapsto> db w)\<rparr>))"

fun close :: "conn \<Rightarrow> unit io" where
  "close (Conn n) = driver_call (Close (Conn n))
     (\<lambda>w. case sessions w n of None \<Rightarrow> (Inl closed_error, w)
          | Some s \<Rightarrow> (Inr (), w\<lparr>sessions := (sessions w)(n := None)\<rparr>))"

text \<open>\<open>time.sleep(delay)\<close>: a negative delay is a ValueError.\<close>

definition sleep :: "int \<Rightarrow> unit io" where
  "sleep d w =
     (if d < 0 then (Inl (ValueError ''sleep length must be non-negative''), w)
      else (Inr (), log_call (Sleep d) None w))"

subsection \<open>Connection helpers (lines 46-72)\<close>

text \<open>
  \<open>_connect_with_retry\<close>: the loop over \<open>range(retries)\<close>, with \<open>last_exc\<close> carried along.
  The \<open>print\<close> of the retry message is not modelled.
\<close>

fun retry_loop :: "nat list \<Rightarrow> int \<Rightarrow> int \<Rightarrow> exn \<Rightarrow> conn io" where
  "retry_loop [] retries delay last_exc w = (Inl last_exc, w)"
| "retry_loop (attempt # rest) retries delay last_exc w =
     (case connect w of
        (Inr c, w1) \<Rightarrow> (Inr c, w1)
      | (Inl exc, w1) \<Rightarrow>
          (if int attempt < retries - 1
           then (case sleep delay w1 of
                   (Inl e, w2) \<Rightarrow> (Inl e, w2)
                 | (Inr u, w2) \<Rightarrow> retry_loop rest retries delay exc w2)
           else retry_loop rest retries delay exc w1))"

definition connect_with_retry :: "int \<Rightarrow> int \<Rightarrow> conn io" where
  "connect_with_retry retries delay =
     retry_loop [0..<nat retries] retries delay (Exception ''Could not connect to Db2'')"

text \<open>
  \<open>get_db\<close>, the context manager, applied to the body of its \<open>with\<close> block: the body
  runs at the \<open>yield\<close>, so its exception is caught by the \<open>except\<close> clause, and a
  \<open>return\<close> inside the block resumes the generator after the \<open>yield\<close>.
\<close>

definition get_db :: "(conn \<Rightarrow> 'a io) \<Rightarrow> 'a io" where
  "get_db body =
     and_then (connect_with_retry 5 5) (\<lambda>c.
       try_finally
         (try_except
            (and_then (body c) (\<lambda>v. and_then (commit c) (\<lambda>u. ret v)))
            (\<lambda>e. and_then (rollback c) (\<lambda>u. raise e)))
         (close c))"

subsection \<open>Python built-ins used by the handlers\<close>

text \<open>
  \<open>str.strip()\<close> and \<open>int(str)\<close> on ASCII text: surrounding whitespace is dropped, then
  an optional sign and decimal digits, where single underscores may stand between digits.
\<close>

definition is_space :: "char \<Rightarrow> bool" where
  "is_space c = (c \<in> set [CHR '' '', CHR 0x09, CHR 0x0A, CHR 0x0B, CHR 0x0C, CHR 0x0D,
                            CHR 0x1C, CHR 0x1D, CHR 0x1E, CHR 0x1F])"

definition strip :: "string \<Rightarrow> string" where
  "strip s = rev (dropWhile is_space (rev (dropWhile is_space s)))"

definition is_digit :: "char \<Rightarrow> bool" where
  "is_digit c = (48 \<le> (of_char c :: nat) \<and> (of_char c :: nat) \<le> 57)"

definition digit_value :: "char \<Rightarrow> int" where
  "digit_value c = int (of_char c) - 48"

fun parse_digits :: "bool \<Rightarrow> int \<Rightarrow> string \<Rightarrow> int option" where
  "parse_digits prev acc [] = (if prev then Some acc else None)"
| "parse_digits prev acc (c # cs) =
     (if is_digit c then parse_digits True (acc * 10 + digit_value c) cs
      else if c = CHR ''_'' \<and> prev then parse_digits False acc cs
      else None)"

definition py_int :: "string \<Rightarrow> int option" where
  "py_int s =
     (case strip s of
        [] \<Rightarrow> None
      | c # cs \<Rightarrow>
          if c = CHR ''-'' then map_option uminus (parse_digits False 0 cs)
          else if c = CHR ''+'' then parse_digits False 0 cs
          else parse_digits False 0 (c # cs))"

text \<open>\<open>sub in text\<close> on strings.\<close>

fun is_prefix :: "string \<Rightarrow> string \<Rightarrow> bool" where
  "is_prefix [] ys = True"
| "is_prefix (x # xs) [] = False"
| "is_prefix (x # xs) (y # ys) = (x = y \<and> is_prefix xs ys)"

fun contains :: "string \<Rightarrow> string \<Rightarrow> bool" where
  "contains sub [] = (sub = [])"
| "contains sub (c # cs) = (is_prefix sub (c # cs) \<or> contains sub cs)"

text \<open>\<open>r[i]\<close> on a fetched row, and \<open>int(v)\<close>, \<open>float(v)\<close> on a column value.\<close>

definition index :: "row \<Rightarrow> nat \<Rightarrow> val io" where
  "index r i = (if i < length r then ret (r ! i) else raise (IndexError ''tuple index out of range''))"

fun int_of_val :: "val \<Rightarrow> int io" where
  "int_of_val (IntV n) = ret n"
| "int_of_val (DecV n) = ret (if 0 \<le> n then n div 100 else - ((- n) div 100))"
| "int_of_val NullV = raise (TypeError ''int() argument must be a string, a bytes-like object or a real number'')"

fun float_of_val :: "val \<Rightarrow> int io" where
  "float_of_val (IntV n) = ret (100 * n)"
| "float_of_val (DecV n) = ret n"
| "float_of_val NullV = raise (TypeError ''float() argument must be a string or a real number'')"

text \<open>\<open>f"{total:,.2f}"\<close> for an amount in cents.\<close>

definition digit_char :: "nat \<Rightarrow> char" where
  "digit_char n = char_of (48 + n mod 10)"

fun decimal :: "nat \<Rightarrow> string" where
  "decimal n = (if n < 10 then [digit_char n] else decimal (n div 10) @ [digit_char n])"

fun commas :: "string \<Rightarrow> string" where
  "commas (a # b # c # d # rest) = a # b # c # CHR '','' # commas (d # rest)"
| "commas xs = xs"

definition format_amount :: "int \<Rightarrow> string" where
  "format_amount t =
     (if t < 0 then ''-'' else []) @ rev (commas (rev (decimal (nat \<bar>t\<bar> div 100)))) @ ''.'' @
     [digit_char (nat \<bar>t\<bar> mod 100 div 10), digit_char (nat \<bar>t\<bar> mod 10)]"

definition check_mark :: string where
  "check_mark = [CHR 0xE2, CHR 0x9C, CHR 0x93]"

definition em_dash :: string where
  "em_dash = [CHR 0xE2, CHR 0x80, CHR 0x94]"

subsection \<open>Schema initialisation (lines 80-151)\<close>

text \<open>
  \<open>_create_table_if_not_exists(cur, create_sql, table_name)\<close>: \<open>str(exc)\<close> is searched for
  the two markers; \<open>raise\<close> re-raises the exception caught.
\<close>

definition create_table_if_not_exists :: "cursor \<Rightarrow> sql \<Rightarrow> string \<Rightarrow> unit io" where
  "create_table_if_not_exists cur create_sql table_name =
     try_except (execute cur create_sql)
       (\<lambda>exc. if contains ''SQL0601N'' (str_of_exn exc) \<or> contains ''-601'' (str_of_exn exc)
              then ret ()
              else raise exc)"

text \<open>
  The three call sites in \<open>init_db\<close> (lines 97, 110, 120) pass two positional arguments,
  \<open>cur\<close> and the CREATE TABLE text, to this function of three parameters without defaults.
  Python binds the arguments before the body runs and raises a TypeError for the missing
  \<open>table_name\<close>: the body of the function is not entered.
\<close>

definition call_create_table_if_not_exists_2 :: "cursor \<Rightarrow> sql \<Rightarrow> unit io" where
  "call_create_table_if_not_exists_2 cur create_sql =
     raise (TypeError (''_create_table_if_not_exists() missing 1 required positional argument: ''
                       @ [CHR 0x27] @ ''table_name'' @ [CHR 0x27]))"

definition seed_products :: "(string \<times> string \<times> int \<times> int \<times> string) list" where
  "seed_products =
     [(''IBM Power10 Server S1022'',
       ''Dual-socket POWER10 server '' @ em_dash @ '' ppc64le architecture, ideal for AI/ML workloads'',
       4999999, 10, ''Servers''),
      (''IBM Fusion HCI Node'',
       ''Hyper-converged infrastructure node for OpenShift '' @ em_dash @ '' NVMe + 25GbE'',
       8999999, 5, ''HCI''),
      (''Red Hat OpenShift Subscription'',
       ''Enterprise Kubernetes platform subscription (1 year, unlimited nodes)'',
       129999, 100, ''Software''),
      (''IBM Db2 Enterprise License'',
       ''Enterprise database license for IBM Power '' @ em_dash @ '' includes HA and partitioning'',
       499999, 50, ''Software''),
      (''NVMe SSD 3.84TB U.2'',
       ''High-speed NVMe storage for HCI nodes '' @ em_dash @ '' 7GB/s read'',
       129999, 30, ''Storage''),
      (''25GbE Dual-Port NIC'',
       ''High-performance 25GbE network adapter for OCP nodes'',
       39999, 75, ''Networking''),
      (''IBM Storage Scale License'',
       ''Parallel file system license for IBM Fusion HCI'',
       249999, 20, ''Software''),
      (''DDR5 128GB RDIMM'',
       ''Server memory module for IBM Power10 '' @ em_dash @ '' DDR5 4800MHz'',
       89999, 40, ''Memory'')]"

fun insert_seeds :: "cursor \<Rightarrow> (string \<times> string \<times> int \<times> int \<times> string) list \<Rightarrow> unit io" where
  "insert_seeds cur [] = ret ()"
| "insert_seeds cur ((n, d, pr, st, cat) # ps) =
     and_then (execute cur (InsertProduct n d pr st cat)) (\<lambda>u. insert_seeds cur ps)"

text \<open>\<open>row and row[0] == 0\<close>\<close>

fun count_is_zero :: "row option \<Rightarrow> bool" where
  "count_is_zero None = False"
| "count_is_zero (Some []) = False"
| "count_is_zero (Some (v # vs)) = (v = IntV 0 \<or> v = DecV 0)"

definition init_db_body :: "conn \<Rightarrow> unit io" where
  "init_db_body c =
     and_then (mk_cursor c) (\<lambda>cur.
     and_then (call_create_table_if_not_exists_2 cur (CreateTable ''products'')) (\<lambda>u.
     and_then (call_create_table_if_not_exists_2 cur (CreateTable ''cart_items'')) (\<lambda>u.
     and_then (call_create_table_if_not_exists_2 cur (CreateTable ''orders'')) (\<lambda>u.
     and_then (execute cur SelectCountProducts) (\<lambda>u.
     and_then (fetchone cur) (\<lambda>row.
     and_then (if count_is_zero row then insert_seeds cur seed_products else ret ()) (\<lambda>u.
     cursor_close cur)))))))"

definition init_db :: "unit io" where
  "init_db = get_db init_db_body"

subsection \<open>Cart total (lines 221-235)\<close>

text \<open>\<open>float(row[0]) if row and row[0] is not None else 0.0\<close>\<close>

fun total_of_row :: "row option \<Rightarrow> int io" where
  "total_of_row None = ret 0"
| "total_of_row (Some []) = ret 0"
| "total_of_row (Some (NullV # vs)) = ret 0"
| "total_of_row (Some (v # vs)) = float_of_val v"

definition cart_total_body :: "conn \<Rightarrow> int io" where
  "cart_total_body c =
     and_then (mk_cursor c) (\<lambda>cur.
     and_then (execute cur SelectCartTotal) (\<lambda>u.
     and_then (fetchone cur) (\<lambda>row.
     and_then (cursor_close cur) (\<lambda>u.
     total_of_row row))))"

definition get_cart_total :: "int io" where
  "get_cart_total = try_except (get_db cart_total_body) (\<lambda>exc. ret 0)"

subsection \<open>The handlers (lines 626-716)\<close>

text \<open>
  A response is a redirect to the index page carrying a flash message and its type (HTTP
  302), or a JSON body with a status code. The form fields of a request are the arguments
  of its handler: \<open>quantity\<close> is the text of the field, if present; \<open>product_id\<close> is the
  value the database converts the text of that field to when it binds it to the INTEGER
  column (a text it cannot convert makes the statement raise, which is a fault).
\<close>

datatype response = Redirect string string | Json "(string \<times> string) list" nat

fun status_code :: "response \<Rightarrow> nat" where
  "status_code (Redirect msg ty) = 302"
| "status_code (Json body code) = code"

definition parse_quantity :: "string option \<Rightarrow> int" where
  "parse_quantity field =
     (let qty_str = strip (case field of None \<Rightarrow> ''1'' | Some s \<Rightarrow> s)
      in case py_int qty_str of Some n \<Rightarrow> max 1 n | None \<Rightarrow> 1)"

definition existing_row :: "row option \<Rightarrow> bool" where
  "existing_row row = (case row of None \<Rightarrow> False | Some r \<Rightarrow> r \<noteq> [])"

definition add_to_cart_body :: "int \<Rightarrow> int \<Rightarrow> conn \<Rightarrow> unit io" where
  "add_to_cart_body product_id qty c =
     and_then (mk_cursor c) (\<lambda>cur.
     and_then (execute cur (SelectCartItem product_id)) (\<lambda>u.
     and_then (fetchone cur) (\<lambda>row.
     and_then
       (if existing_row row
        then and_then (index (the row) 1) (\<lambda>v1.
             and_then (int_of_val v1) (\<lambda>q.
             and_then (index (the row) 0) (\<lambda>v0.
             execute cur (UpdateCartQuantity (q + qty) v0))))
        else execute cur (InsertCartItem product_id qty))
       (\<lambda>u. cursor_close cur))))"

definition ui_add_to_cart :: "int \<Rightarrow> string option \<Rightarrow> response io" where
  "ui_add_to_cart product_id quantity =
     try_except
       (and_then (get_db (add_to_cart_body product_id (parse_quantity quantity)))
          (\<lambda>u. ret (Redirect (''Item added to cart '' @ check_mark) ''success'')))
       (\<lambda>exc. ret (Redirect (''Error: '' @ str_of_exn exc) ''error''))"

definition remove_body :: "int \<Rightarrow> conn \<Rightarrow> unit io" where
  "remove_body cart_id c =
     and_then (mk_cursor c) (\<lambda>cur.
     and_then (execute cur (DeleteCartItem cart_id)) (\<lambda>u.
     cursor_close cur))"

definition ui_remove_from_cart :: "int \<Rightarrow> response io" where
  "ui_remove_from_cart cart_id =
     try_except
       (and_then (get_db (remove_body cart_id))
          (\<lambda>u. ret (Redirect (''Item removed from cart '' @ check_mark) ''success'')))
       (\<lambda>exc. ret (Redirect (''Error: '' @ str_of_exn exc) ''error''))"

definition checkout_body :: "int \<Rightarrow> conn \<Rightarrow> unit io" where
  "checkout_body total_amount c =
     and_then (mk_cursor c) (\<lambda>cur.
     and_then (execute cur (InsertOrder total_amount ''completed'')) (\<lambda>u.
     and_then (execute cur DeleteCartItems) (\<lambda>u.
     cursor_close cur)))"

definition ui_checkout :: "response io" where
  "ui_checkout =
     try_except
       (and_then get_cart_total (\<lambda>total_amount.
          if total_amount = 0 then ret (Redirect ''Cart is empty.'' ''error'')
          else and_then (get_db (checkout_body total_amount))
                 (\<lambda>u. ret (Redirect (''Order placed! Total: $'' @ format_amount total_amount @ '' '' @ check_mark)
                                    ''success''))))
       (\<lambda>exc. ret (Redirect (''Checkout error: '' @ str_of_exn exc) ''error''))"

text \<open>The readiness probe calls the driver's \<open>connect\<close> itself, not \<open>_connect_with_retry\<close>.\<close>

definition ready :: "response io" where
  "ready =
     try_except
       (and_then connect (\<lambda>c.
        and_then (mk_cursor c) (\<lambda>cur.
        and_then (execute cur SelectDummy) (\<lambda>u.
        and_then (cursor_close cur) (\<lambda>u.
        and_then (close c) (\<lambda>u.
        ret (Json [(''status'', ''ready''), (''db'', ''connected'')] 200)))))))
       (\<lambda>exc. ret (Json [(''status'', ''not ready''), (''db'', str_of_exn exc)] 503))"

subsection \<open>Vocabulary of the statements\<close>

text \<open>
  The next driver call returns normally (\<open>next_ok\<close>); every driver call still to come does
  (\<open>all_ok\<close>).
\<close>

definition next_ok :: "string option list \<Rightarrow> bool" where
  "next_ok fs = (case fs of [] \<Rightarrow> True | f # rest \<Rightarrow> f = None)"

definition all_ok :: "string option list \<Rightarrow> bool" where
  "all_ok fs = list_all (\<lambda>f. f = None) fs"

text \<open>
  The trace of connection attempts that fail with the texts \<open>errs\<close>, each followed by a
  sleep of \<open>d\<close> seconds, and the number of connection attempts in a trace.
\<close>

definition failed_attempts :: "int \<Rightarrow> string list \<Rightarrow> (call \<times> string option) list" where
  "failed_attempts d errs = concat (map (\<lambda>m. [(Connect, Some m), (Sleep d, None)]) errs)"

definition attempts :: "(call \<times> string option) list \<Rightarrow> nat" where
  "attempts tr = length (filter (\<lambda>ev. fst ev = Connect) tr)"

fun is_sleep :: "call \<times> string option \<Rightarrow> bool" where
  "is_sleep (Sleep d, r) = True"
| "is_sleep ev = False"

definition is_execute :: "call \<times> string option \<Rightarrow> bool" where
  "is_execute ev = (case fst ev of Execute c q \<Rightarrow> True | other \<Rightarrow> False)"

fun conn_id :: "conn \<Rightarrow> nat" where
  "conn_id (Conn n) = n"

text \<open>
  A database holding the eight seed products, and a world on a store with a script, where
  the conversion of a float to DECIMAL(10,2) is exact.
\<close>

definition seeded_store :: store where
  "seeded_store =
     \<lparr>products = map (\<lambda>(i, n, d, pr, st, cat).
                        \<lparr>p_id = int i + 1, p_name = n, p_description = d, p_price = pr,
                         p_stock = st, p_category = cat\<rparr>)
                    (enumerate 0 seed_products),
      cart_items = [], orders = [],
      next_product_id = 9, next_cart_id = 1, next_order_id = 1\<rparr>"

definition world_of :: "store \<Rightarrow> string option list \<Rightarrow> world" where
  "world_of s fs =
     \<lparr>db = s, sessions = Map.empty, next_conn = 0, result_set = [],
      float_to_decimal = (\<lambda>t. t), faults = fs, trace = []\<rparr>"


definition add_effect :: "int \<Rightarrow> int \<Rightarrow> store \<Rightarrow> store" where
  "add_effect pid qty s =
     (case filter (\<lambda>c. c_product_id c = pid) (cart_items s) of
        [] \<Rightarrow> insert_cart_item pid qty s
      | c # cs \<Rightarrow> update_cart_quantity (c_quantity c + qty) (IntV (c_id c)) s)"

text \<open>The seeded database with two units of product 3 in the cart.\<close>

definition cart_store :: store where
  "cart_store = seeded_store\<lparr>cart_items := [\<lparr>c_id = 1, c_product_id = 3, c_quantity = 2\<rparr>],
                             next_cart_id := 2\<rparr>"


text \<open>The text of an error has the vendor code of "object already exists".\<close>

definition already_exists :: "string \<Rightarrow> bool" where
  "already_exists m = (contains ''SQL0601N'' m \<or> contains ''-601'' m)"

section \<open>Properties\<close>

subsection \<open>Driver calls and the retry loop\<close>

lemma next_fault_Nil: "faults w = [] \<Longrightarrow> next_fault w = (None, w)"
  by (simp add: next_fault_def)

lemma next_fault_Cons: "faults w = f # fs \<Longrightarrow> next_fault w = (f, w\<lparr>faults := fs\<rparr>)"
  by (simp add: next_fault_def)

lemma connect_fails:
  "faults w = Some m # fs \<Longrightarrow>
   connect w = (Inl (Exception m), w\<lparr>faults := fs, trace := trace w @ [(Connect, Some m)]\<rparr>)"
  by (simp add: connect_def driver_call_def next_fault_def log_call_def)

lemma connect_succeeds:
  "next_ok (faults w) \<Longrightarrow>
   connect w = (Inr (Conn (next_conn w)),
     w\<lparr>faults := tl (faults w), trace := trace w @ [(Connect, None)],
       sessions := (sessions w)(next_conn w \<mapsto> db w), next_conn := Suc (next_conn w)\<rparr>)"
  by (cases "faults w") (simp_all add: connect_def driver_call_def next_fault_def log_call_def next_ok_def)

lemma retry_loop_success:
  "faults w = map Some errs @ fs \<Longrightarrow> next_ok fs \<Longrightarrow> length errs < n - k \<Longrightarrow> 0 \<le> d \<Longrightarrow>
   retry_loop [k..<n] (int n) d e0 w =
     (Inr (Conn (next_conn w)),
      w\<lparr>faults := tl fs, trace := trace w @ failed_attempts d errs @ [(Connect, None)],
        sessions := (sessions w)(next_conn w \<mapsto> db w), next_conn := Suc (next_conn w)\<rparr>)"
proof (induction errs arbitrary: w k e0)
  case Nil
  then have kn: "k < n" and f: "faults w = fs" by simp_all
  from Nil f have ok: "next_ok (faults w)" by simp
  show ?case
    by (simp add: upt_conv_Cons [OF kn] connect_succeeds [OF ok] failed_attempts_def f fun_upd_def)
next
  case (Cons m errs)
  then have kn: "k < n" and skn: "Suc k < n" and d: "0 \<le> d" by simp_all
  have fw: "faults w = Some m # (map Some errs @ fs)" using Cons.prems by simp
  let ?w2 = "w\<lparr>faults := map Some errs @ fs, trace := trace w @ [(Connect, Some m), (Sleep d, None)]\<rparr>"
  have step: "retry_loop [k..<n] (int n) d e0 w = retry_loop [Suc k..<n] (int n) d (Exception m) ?w2"
    using skn d
    by (simp add: upt_conv_Cons [OF kn] connect_fails [OF fw] sleep_def log_call_def)
  have rest: "retry_loop [Suc k..<n] (int n) d (Exception m) ?w2 = (Inr (Conn (next_conn ?w2)),
      ?w2\<lparr>faults := tl fs, trace := trace ?w2 @ failed_attempts d errs @ [(Connect, None)],
        sessions := (sessions ?w2)(next_conn ?w2 \<mapsto> db ?w2), next_conn := Suc (next_conn ?w2)\<rparr>)"
    using Cons.prems by (intro Cons.IH) simp_all
  show ?case by (simp add: step rest failed_attempts_def fun_upd_def)
qed

lemma retry_loop_failure:
  "faults w = map Some errs @ fs \<Longrightarrow> errs \<noteq> [] \<Longrightarrow> length errs = n - k \<Longrightarrow> 0 \<le> d \<Longrightarrow>
   retry_loop [k..<n] (int n) d e0 w =
     (Inl (Exception (last errs)),
      w\<lparr>faults := fs,
        trace := trace w @ failed_attempts d (butlast errs) @ [(Connect, Some (last errs))]\<rparr>)"
proof (induction errs arbitrary: w k e0)
  case Nil
  then show ?case by simp
next
  case (Cons m errs)
  then have kn: "k < n" and d: "0 \<le> d" by simp_all
  have fw: "faults w = Some m # (map Some errs @ fs)" using Cons.prems by simp
  show ?case
  proof (cases "errs = []")
    case True
    then have last: "Suc k = n" using Cons.prems by simp
    have fw': "faults w = Some m # fs" using fw True by simp
    have "\<not> int k < int n - 1" using last by simp
    then show ?thesis
      using last by (simp add: upt_conv_Cons [OF kn] connect_fails [OF fw'] failed_attempts_def True)
  next
    case False
    then have skn: "Suc k < n" using Cons.prems by (cases errs) simp_all
    let ?w2 = "w\<lparr>faults := map Some errs @ fs, trace := trace w @ [(Connect, Some m), (Sleep d, None)]\<rparr>"
    have step: "retry_loop [k..<n] (int n) d e0 w = retry_loop [Suc k..<n] (int n) d (Exception m) ?w2"
      using skn d
      by (simp add: upt_conv_Cons [OF kn] connect_fails [OF fw] sleep_def log_call_def)
    have rest: "retry_loop [Suc k..<n] (int n) d (Exception m) ?w2 = (Inl (Exception (last errs)),
      ?w2\<lparr>faults := fs,
        trace := trace ?w2 @ failed_attempts d (butlast errs) @ [(Connect, Some (last errs))]\<rparr>)"
      using Cons.prems False by (intro Cons.IH) simp_all
    show ?thesis by (simp add: step rest failed_attempts_def False)
  qed
qed

lemma connect_attempts: "attempts (trace (snd (connect w))) = Suc (attempts (trace w))"
  by (cases "faults w"; cases "hd (faults w)")
     (simp_all add: connect_def driver_call_def next_fault_def log_call_def attempts_def)

lemma sleep_attempts: "attempts (trace (snd (sleep d w))) = attempts (trace w)"
  by (simp add: sleep_def log_call_def attempts_def)

lemma retry_loop_attempts:
  "attempts (trace (snd (retry_loop xs r d e0 w))) \<le> attempts (trace w) + length xs"
proof (induction xs arbitrary: w e0)
  case Nil
  then show ?case by simp
next
  case (Cons a xs)
  obtain rc w1 where c: "connect w = (rc, w1)" by (cases "connect w")
  then have a1: "attempts (trace w1) = Suc (attempts (trace w))"
    using connect_attempts [of w] by simp
  show ?case
  proof (cases rc)
    case (Inr cn)
    then show ?thesis using c a1 by simp
  next
    case (Inl exc)
    show ?thesis
    proof (cases "int a < r - 1 \<and> \<not> d < 0")
      case True
      then have "retry_loop (a # xs) r d e0 w =
                 retry_loop xs r d exc (log_call (Sleep d) None w1)"
        using c Inl by (simp add: sleep_def)
      moreover have "attempts (trace (log_call (Sleep d) None w1)) = attempts (trace w1)"
        by (simp add: log_call_def attempts_def)
      ultimately show ?thesis
        using Cons.IH [of exc "log_call (Sleep d) None w1"] a1 by simp
    next
      case False
      then consider "int a < r - 1" "d < 0" | "\<not> int a < r - 1" by blast
      then show ?thesis
      proof cases
        case 1
        then show ?thesis using c Inl a1 by (simp add: sleep_def)
      next
        case 2
        then have "retry_loop (a # xs) r d e0 w = retry_loop xs r d exc w1"
          using c Inl by simp
        then show ?thesis using Cons.IH [of exc w1] a1 by simp
      qed
    qed
  qed
qed

lemma driver_call_raises:
  "faults w = Some m # fs \<Longrightarrow>
   driver_call c work w = (Inl (Exception m), w\<lparr>faults := fs, trace := trace w @ [(c, Some m)]\<rparr>)"
  by (simp add: driver_call_def next_fault_def log_call_def)

lemma faults_same: "faults w = fs \<Longrightarrow> w\<lparr>faults := fs\<rparr> = w"
  by (cases w) simp

lemma driver_call_works:
  "next_ok (faults w) \<Longrightarrow>
   driver_call c work w =
     (case work (w\<lparr>faults := tl (faults w)\<rparr>) of
        (r, w2) \<Rightarrow> (r, w2\<lparr>trace := trace w2 @ [(c, raised r)]\<rparr>))"
  by (cases w) (auto simp add: driver_call_def next_fault_def log_call_def next_ok_def split: list.splits)

lemmas prims = commit.simps rollback.simps close.simps driver_call_def next_fault_def log_call_def
  and_then_def try_finally_def try_except_def ret_def raise_def

lemma connect_with_retry_success:
  assumes "faults w = map Some errs @ fs" "next_ok fs" "length errs < nat retries" "0 \<le> delay"
  shows "connect_with_retry retries delay w =
     (Inr (Conn (next_conn w)),
      w\<lparr>faults := tl fs, trace := trace w @ failed_attempts delay errs @ [(Connect, None)],
        sessions := (sessions w)(next_conn w \<mapsto> db w), next_conn := Suc (next_conn w)\<rparr>)"
proof -
  obtain n where r: "retries = int n" using assms(3) by (cases retries) auto
  have "length errs < n - 0" using assms(3) by (simp add: r)
  from retry_loop_success [OF assms(1,2) this assms(4)] show ?thesis
    by (simp add: connect_with_retry_def r)
qed

lemma connect_with_retry_failure:
  assumes "faults w = map Some errs @ fs" "length errs = nat retries" "1 \<le> retries" "0 \<le> delay"
  shows "connect_with_retry retries delay w =
     (Inl (Exception (last errs)),
      w\<lparr>faults := fs,
        trace := trace w @ failed_attempts delay (butlast errs) @ [(Connect, Some (last errs))]\<rparr>)"
proof -
  obtain n where r: "retries = int n" using assms(3) by (cases retries) auto
  have ne: "errs \<noteq> []" using assms(2,3) by auto
  have "length errs = n - 0" using assms(2) by (simp add: r)
  from retry_loop_failure [OF assms(1) ne this assms(4)] show ?thesis
    by (simp add: connect_with_retry_def r)
qed

subsection \<open>C4: connection acquisition with retries\<close>

text \<open>
  Claim C4, for at least one attempt (\<open>1 \<le> retries\<close>) and \<open>0 \<le> delay\<close>:
  \<open>_connect_with_retry\<close> makes at most \<open>retries\<close> connection attempts; when the first
  \<open>length errs < retries\<close> attempts fail and the next one succeeds, it returns the connection
  of that attempt, having slept \<open>delay\<close> seconds after each failed attempt; when all
  \<open>retries\<close> attempts fail, it raises the error of the last attempt, having slept \<open>delay\<close>
  seconds between consecutive attempts and not after the last one. With \<open>retries = 0\<close>,
  for every delay and every world, no driver call is made and nothing changes: the fixed
  error "Could not connect to Db2" is raised.
\<close>

theorem connect_with_retry_attempts:
  assumes "1 \<le> retries" and "0 \<le> delay"
  shows "attempts (trace (snd (connect_with_retry retries delay w))) \<le> attempts (trace w) + nat retries
    \<and> (\<forall>errs fs. faults w = map Some errs @ fs \<and> next_ok fs \<and> length errs < nat retries \<longrightarrow>
          fst (connect_with_retry retries delay w) = Inr (Conn (next_conn w)) \<and>
          trace (snd (connect_with_retry retries delay w)) =
            trace w @ failed_attempts delay errs @ [(Connect, None)])
    \<and> (\<forall>errs fs. faults w = map Some errs @ fs \<and> length errs = nat retries \<longrightarrow>
          fst (connect_with_retry retries delay w) = Inl (Exception (last errs)) \<and>
          trace (snd (connect_with_retry retries delay w)) =
            trace w @ failed_attempts delay (butlast errs) @ [(Connect, Some (last errs))])
    \<and> (\<forall>d v. connect_with_retry 0 d v = (Inl (Exception ''Could not connect to Db2''), v))"
proof (intro conjI allI impI)
  show "attempts (trace (snd (connect_with_retry retries delay w))) \<le> attempts (trace w) + nat retries"
    unfolding connect_with_retry_def
    using retry_loop_attempts [of "[0..<nat retries]" retries delay _ w] by simp
next
  fix errs fs
  assume h: "faults w = map Some errs @ fs \<and> next_ok fs \<and> length errs < nat retries"
  then have eq: "connect_with_retry retries delay w =
     (Inr (Conn (next_conn w)),
      w\<lparr>faults := tl fs, trace := trace w @ failed_attempts delay errs @ [(Connect, None)],
        sessions := (sessions w)(next_conn w \<mapsto> db w), next_conn := Suc (next_conn w)\<rparr>)"
    using connect_with_retry_success assms by blast
  show "fst (connect_with_retry retries delay w) = Inr (Conn (next_conn w))"
    by (simp add: eq)
  show "trace (snd (connect_with_retry retries delay w)) =
            trace w @ failed_attempts delay errs @ [(Connect, None)]"
    by (simp add: eq)
next
  fix errs fs
  assume h: "faults w = map Some errs @ fs \<and> length errs = nat retries"
  then have eq: "connect_with_retry retries delay w =
     (Inl (Exception (last errs)),
      w\<lparr>faults := fs,
        trace := trace w @ failed_attempts delay (butlast errs) @ [(Connect, Some (last errs))]\<rparr>)"
    using connect_with_retry_failure assms by blast
  show "fst (connect_with_retry retries delay w) = Inl (Exception (last errs))"
    by (simp add: eq)
  show "trace (snd (connect_with_retry retries delay w)) =
            trace w @ failed_attempts delay (butlast errs) @ [(Connect, Some (last errs))]"
    by (simp add: eq)
next
  fix d and v :: world
  show "connect_with_retry 0 d v = (Inl (Exception ''Could not connect to Db2''), v)"
    by (simp add: connect_with_retry_def)
qed

text \<open>
  C4 at concrete inputs: two failures and a success within three attempts; two failures
  with two attempts.
\<close>

theorem connect_with_retry_attempts_witness:
  "fst (connect_with_retry 3 5 (world_of seeded_store [Some ''down'', Some ''busy'', None])) = Inr (Conn 0)
   \<and> trace (snd (connect_with_retry 3 5 (world_of seeded_store [Some ''down'', Some ''busy'', None]))) =
       [(Connect, Some ''down''), (Sleep 5, None), (Connect, Some ''busy''), (Sleep 5, None),
        (Connect, None)]
   \<and> fst (connect_with_retry 2 5 (world_of seeded_store [Some ''down'', Some ''busy'', None])) =
       Inl (Exception ''busy'')
   \<and> trace (snd (connect_with_retry 2 5 (world_of seeded_store [Some ''down'', Some ''busy'', None]))) =
       [(Connect, Some ''down''), (Sleep 5, None), (Connect, Some ''busy'')]"
proof -
  let ?w = "world_of seeded_store [Some ''down'', Some ''busy'', None]"
  have a: "faults ?w = map Some [''down'', ''busy''] @ [None] \<and> next_ok [None]
           \<and> length [''down'', ''busy''] < nat 3"
    by (simp add: world_of_def next_ok_def)
  have b: "faults ?w = map Some [''down'', ''busy''] @ [None] \<and> length [''down'', ''busy''] = nat 2"
    by (simp add: world_of_def)
  have t3: "(1::int) \<le> 3" and t2: "(1::int) \<le> 2" and d: "(0::int) \<le> 5" by simp_all
  from connect_with_retry_attempts [OF t3 d, of ?w] a
  have "fst (connect_with_retry 3 5 ?w) = Inr (Conn (next_conn ?w)) \<and>
        trace (snd (connect_with_retry 3 5 ?w)) =
          trace ?w @ failed_attempts 5 [''down'', ''busy''] @ [(Connect, None)]"
    by blast
  moreover from connect_with_retry_attempts [OF t2 d, of ?w] b
  have "fst (connect_with_retry 2 5 ?w) = Inl (Exception (last [''down'', ''busy''])) \<and>
        trace (snd (connect_with_retry 2 5 ?w)) =
          trace ?w @ failed_attempts 5 (butlast [''down'', ''busy'']) @
            [(Connect, Some (last [''down'', ''busy'']))]"
    by blast
  ultimately show ?thesis
    by (simp add: world_of_def failed_attempts_def)
qed

text \<open>
  C4 as stated also covers \<open>retries = 0\<close>. There the loop body never runs: no attempt is
  made, and the error raised is the initial value of \<open>last_exc\<close>, not the error of an
  attempt.
\<close>

theorem connect_with_retry_zero_counterexample:
  "fst (connect_with_retry 0 5 (world_of seeded_store [Some ''down''])) =
     Inl (Exception ''Could not connect to Db2'')
   \<and> attempts (trace (snd (connect_with_retry 0 5 (world_of seeded_store [Some ''down''])))) = 0"
  by (simp add: connect_with_retry_def world_of_def attempts_def)


subsection \<open>Transactions under faults and without\<close>

lemma all_ok_next: "all_ok fs \<Longrightarrow> next_ok fs"
  by (cases fs) (simp_all add: all_ok_def next_ok_def)

lemma all_ok_tl: "all_ok fs \<Longrightarrow> all_ok (tl fs)"
  by (cases fs) (simp_all add: all_ok_def)

lemma all_ok_Nil: "all_ok []"
  by (simp add: all_ok_def)

lemmas body_prims = mk_cursor.simps execute.simps fetchone.simps cursor_close.simps
  driver_call_def next_fault_def log_call_def and_then_def ret_def raise_def

lemma add_to_cart_body_effect:
  assumes "add_to_cart_body pid q (Conn n) w1 = (rb, wb)" and "sessions w1 n = Some s"
  shows "db wb = db w1 \<and> (rb = Inr () \<longrightarrow> sessions wb n = Some (add_effect pid q s))"
  using assms
  by (cases "filter (\<lambda>c. c_product_id c = pid) (cart_items s)")
     (auto simp add: add_to_cart_body_def body_prims existing_row_def index_def add_effect_def
           split: list.splits option.splits sum.splits if_splits)


lemma connect_frame:
  assumes "connect w = (rc, w1)"
  shows "db w1 = db w \<and> (\<forall>c. rc = Inr c \<longrightarrow> sessions w1 (conn_id c) = Some (db w))"
  using assms
  by (auto simp add: connect_def driver_call_def next_fault_def log_call_def
           split: list.splits option.splits)

lemma retry_loop_frame:
  "retry_loop xs r d e0 w = (rc, w1) \<Longrightarrow>
   db w1 = db w \<and> (\<forall>c. rc = Inr c \<longrightarrow> sessions w1 (conn_id c) = Some (db w))"
proof (induction xs arbitrary: w e0)
  case Nil
  then show ?case by auto
next
  case (Cons a xs)
  obtain r0 w0 where c: "connect w = (r0, w0)" by (cases "connect w")
  note f = connect_frame [OF c]
  show ?case
  proof (cases r0)
    case (Inr cn)
    then show ?thesis using Cons.prems c f by auto
  next
    case (Inl exc)
    show ?thesis
    proof (cases "int a < r - 1")
      case True
      show ?thesis
      proof (cases "d < 0")
        case True
        then show ?thesis using Cons.prems c f Inl \<open>int a < r - 1\<close> by (auto simp add: sleep_def)
      next
        case False
        then have "retry_loop xs r d exc (log_call (Sleep d) None w0) = (rc, w1)"
          using Cons.prems c Inl True by (simp add: sleep_def)
        from Cons.IH [OF this] show ?thesis using f by (simp add: log_call_def)
      qed
    next
      case False
      then have "retry_loop xs r d exc w0 = (rc, w1)"
        using Cons.prems c Inl by simp
      from Cons.IH [OF this] show ?thesis using f by simp
    qed
  qed
qed

lemma get_db_effect:
  assumes frame: "\<And>n w1 rb wb. sessions w1 n = Some (db w1) \<Longrightarrow> body (Conn n) w1 = (rb, wb) \<Longrightarrow>
            db wb = db w1 \<and> (\<forall>v. rb = Inr v \<longrightarrow> sessions wb n = Some (T (db w1)))"
    and res: "get_db body w = (r, w')"
  shows "(db w' = db w \<or> db w' = T (db w)) \<and> (\<forall>v. r = Inr v \<longrightarrow> db w' = T (db w))"
proof -
  obtain rc w1 where c: "connect_with_retry 5 5 w = (rc, w1)"
    by (cases "connect_with_retry 5 5 w")
  then have f: "db w1 = db w" "\<And>c. rc = Inr c \<Longrightarrow> sessions w1 (conn_id c) = Some (db w)"
    using retry_loop_frame [of _ 5 5 _ w rc w1] by (auto simp add: connect_with_retry_def)
  show ?thesis
  proof (cases rc)
    case (Inl e)
    then show ?thesis using res c f by (auto simp add: get_db_def and_then_def)
  next
    case (Inr cn)
    obtain n where n: "cn = Conn n" by (cases cn)
    obtain rb wb where b: "body (Conn n) w1 = (rb, wb)" by (cases "body (Conn n) w1")
    have s1: "sessions w1 n = Some (db w1)" using f(2) [OF Inr] f(1) n by simp
    from frame [OF s1 b] have fb: "db wb = db w" "\<And>v. rb = Inr v \<Longrightarrow> sessions wb n = Some (T (db w))"
      using f(1) by auto
    show ?thesis
      using res c Inr n b fb
      by (cases rb)
         (auto simp add: get_db_def prims split: list.splits option.splits sum.splits)
  qed
qed


lemma connect_with_retry_ok:
  assumes "next_ok (faults w)"
  shows "connect_with_retry 5 5 w =
     (Inr (Conn (next_conn w)),
      w\<lparr>faults := tl (faults w), trace := trace w @ [(Connect, None)],
        sessions := (sessions w)(next_conn w \<mapsto> db w), next_conn := Suc (next_conn w)\<rparr>)"
  using connect_with_retry_success [of w "[]" "faults w" 5 5] assms
  by (simp add: failed_attempts_def)

lemmas ok_simps = all_ok_next all_ok_tl driver_call_works
  mk_cursor.simps execute.simps fetchone.simps cursor_close.simps commit.simps rollback.simps
  close.simps and_then_def try_except_def try_finally_def ret_def raise_def

lemma get_db_ok:
  assumes ok: "all_ok (faults w)"
    and body: "\<And>n w1. all_ok (faults w1) \<Longrightarrow> sessions w1 n = Some (db w) \<Longrightarrow> db w1 = db w \<Longrightarrow>
            float_to_decimal w1 = float_to_decimal w \<Longrightarrow>
            fst (body (Conn n) w1) = Inr v \<and> all_ok (faults (snd (body (Conn n) w1)))
            \<and> sessions (snd (body (Conn n) w1)) n = Some t
            \<and> float_to_decimal (snd (body (Conn n) w1)) = float_to_decimal w"
  shows "fst (get_db body w) = Inr v \<and> all_ok (faults (snd (get_db body w)))
         \<and> db (snd (get_db body w)) = t
         \<and> float_to_decimal (snd (get_db body w)) = float_to_decimal w"
proof -
  let ?n = "next_conn w"
  let ?w1 = "w\<lparr>faults := tl (faults w), trace := trace w @ [(Connect, None)],
        sessions := (sessions w)(next_conn w \<mapsto> db w), next_conn := Suc (next_conn w)\<rparr>"
  have c: "connect_with_retry 5 5 w = (Inr (Conn ?n), ?w1)"
    using connect_with_retry_ok ok all_ok_next by blast
  obtain wb where b: "body (Conn ?n) ?w1 = (Inr v, wb)" "all_ok (faults wb)"
      "sessions wb ?n = Some t" "float_to_decimal wb = float_to_decimal w"
    using body [of ?w1 ?n] ok by (cases "body (Conn ?n) ?w1") (simp add: all_ok_tl)
  show ?thesis
    using b by (simp add: get_db_def c ok_simps)
qed

text \<open>The same when the body raises: the rollback and the close succeed.\<close>

lemma get_db_raises_ok:
  assumes ok: "all_ok (faults w)"
    and body: "\<And>n w1. all_ok (faults w1) \<Longrightarrow> sessions w1 n = Some (db w) \<Longrightarrow> db w1 = db w \<Longrightarrow>
            float_to_decimal w1 = float_to_decimal w \<Longrightarrow>
            fst (body (Conn n) w1) = Inl e \<and> all_ok (faults (snd (body (Conn n) w1)))
            \<and> sessions (snd (body (Conn n) w1)) n \<noteq> None
            \<and> db (snd (body (Conn n) w1)) = db w
            \<and> float_to_decimal (snd (body (Conn n) w1)) = float_to_decimal w"
  shows "fst (get_db body w) = Inl e \<and> all_ok (faults (snd (get_db body w)))
         \<and> db (snd (get_db body w)) = db w
         \<and> float_to_decimal (snd (get_db body w)) = float_to_decimal w"
proof -
  let ?n = "next_conn w"
  let ?w1 = "w\<lparr>faults := tl (faults w), trace := trace w @ [(Connect, None)],
        sessions := (sessions w)(next_conn w \<mapsto> db w), next_conn := Suc (next_conn w)\<rparr>"
  have c: "connect_with_retry 5 5 w = (Inr (Conn ?n), ?w1)"
    using connect_with_retry_ok ok all_ok_next by blast
  obtain wb t where b: "body (Conn ?n) ?w1 = (Inl e, wb)" "all_ok (faults wb)"
      "sessions wb ?n = Some t" "db wb = db w" "float_to_decimal wb = float_to_decimal w"
    using body [of ?w1 ?n] ok by (cases "body (Conn ?n) ?w1") (auto simp add: all_ok_tl)
  show ?thesis
    using b by (simp add: get_db_def c ok_simps)
qed

lemma cart_total_body_frame:
  assumes "cart_total_body (Conn n) w1 = (rb, wb)" and "sessions w1 n = Some s"
  shows "db wb = db w1 \<and> (\<forall>v. rb = Inr v \<longrightarrow> sessions wb n = Some s)"
  using assms
  by (auto simp add: cart_total_body_def body_prims
           split: list.splits option.splits sum.splits if_splits)

lemma cart_total_body_ok:
  assumes "all_ok (faults w1)" and "sessions w1 n = Some s" and "total_fits s"
  shows "fst (cart_total_body (Conn n) w1) = Inr (cart_total s)
         \<and> all_ok (faults (snd (cart_total_body (Conn n) w1)))
         \<and> sessions (snd (cart_total_body (Conn n) w1)) n = Some s
         \<and> float_to_decimal (snd (cart_total_body (Conn n) w1)) = float_to_decimal w1"
  using assms by (simp add: cart_total_body_def ok_simps)

lemma cart_total_body_overflow:
  assumes "all_ok (faults w1)" and "sessions w1 n = Some s" and "\<not> total_fits s"
  shows "fst (cart_total_body (Conn n) w1) = Inl overflow_error
         \<and> all_ok (faults (snd (cart_total_body (Conn n) w1)))
         \<and> sessions (snd (cart_total_body (Conn n) w1)) n \<noteq> None
         \<and> db (snd (cart_total_body (Conn n) w1)) = db w1
         \<and> float_to_decimal (snd (cart_total_body (Conn n) w1)) = float_to_decimal w1"
  using assms by (simp add: cart_total_body_def ok_simps)

lemma get_cart_total_db: "db (snd (get_cart_total w)) = db w"
proof -
  obtain r w' where g: "get_db cart_total_body w = (r, w')"
    by (cases "get_db cart_total_body w")
  have "db w' = db w"
    using get_db_effect [of cart_total_body "\<lambda>s. s", OF _ g] cart_total_body_frame by blast
  then show ?thesis
    using g by (cases r) (simp_all add: get_cart_total_def try_except_def ret_def)
qed

lemma get_cart_total_ok:
  assumes "all_ok (faults w)"
  shows "fst (get_cart_total w) = Inr (if total_fits (db w) then cart_total (db w) else 0)
         \<and> all_ok (faults (snd (get_cart_total w))) \<and> db (snd (get_cart_total w)) = db w
         \<and> float_to_decimal (snd (get_cart_total w)) = float_to_decimal w"
proof (cases "total_fits (db w)")
  case True
  have "fst (get_db cart_total_body w) = Inr (cart_total (db w))
        \<and> all_ok (faults (snd (get_db cart_total_body w)))
        \<and> db (snd (get_db cart_total_body w)) = db w
        \<and> float_to_decimal (snd (get_db cart_total_body w)) = float_to_decimal w"
    using assms True by (intro get_db_ok) (simp_all add: cart_total_body_ok)
  then show ?thesis
    using True
    by (cases "get_db cart_total_body w") (simp add: get_cart_total_def try_except_def)
next
  case False
  have "fst (get_db cart_total_body w) = Inl overflow_error
        \<and> all_ok (faults (snd (get_db cart_total_body w)))
        \<and> db (snd (get_db cart_total_body w)) = db w
        \<and> float_to_decimal (snd (get_db cart_total_body w)) = float_to_decimal w"
    using assms False by (intro get_db_raises_ok) (simp_all add: cart_total_body_overflow)
  then show ?thesis
    using False
    by (cases "get_db cart_total_body w") (simp add: get_cart_total_def try_except_def ret_def)
qed


lemma handler_world:
  "snd (try_except (and_then m (\<lambda>u. ret a)) (\<lambda>e. ret (h e)) w) = snd (m w)"
  by (cases "m w"; cases "fst (m w)") (auto simp add: try_except_def and_then_def ret_def)

lemma handler_result:
  "fst (m w) = Inr v \<Longrightarrow> fst (try_except (and_then m (\<lambda>u. ret a)) (\<lambda>e. ret (h e)) w) = Inr a"
  by (cases "m w") (auto simp add: try_except_def and_then_def ret_def)


lemma checkout_zero:
  assumes "fst (get_cart_total w) = Inr 0"
  shows "fst (ui_checkout w) = Inr (Redirect ''Cart is empty.'' ''error'')
         \<and> db (snd (ui_checkout w)) = db w"
proof -
  obtain w2 where g: "get_cart_total w = (Inr 0, w2)"
    using assms by (cases "get_cart_total w") simp
  then have "db w2 = db w" using get_cart_total_db [of w] by simp
  then show ?thesis
    using g by (simp add: ui_checkout_def try_except_def and_then_def ret_def)
qed

lemma cart_store_total: "cart_total cart_store = 259998"
  by (simp add: cart_total_def cart_store_def seeded_store_def seed_products_def)

lemma seeded_store_total: "cart_total seeded_store = 0"
  by (simp add: cart_total_def seeded_store_def)







text \<open>
  Claim C5: whenever the cart total computed by \<open>get_cart_total\<close> is zero, whatever the
  driver calls do, the checkout answers with the redirect carrying "Cart is empty." (HTTP
  302, not a 5xx) and leaves the database as it was: no order row is inserted, the cart and
  the products are unchanged. In particular this is so when every driver call succeeds and
  the sum over the cart is zero.
\<close>

theorem checkout_empty_cart:
  "(fst (get_cart_total w) = Inr 0 \<longrightarrow>
      fst (ui_checkout w) = Inr (Redirect ''Cart is empty.'' ''error'')
      \<and> status_code (Redirect ''Cart is empty.'' ''error'') < 500
      \<and> db (snd (ui_checkout w)) = db w)
   \<and> (all_ok (faults w) \<and> cart_total (db w) = 0 \<longrightarrow>
      fst (ui_checkout w) = Inr (Redirect ''Cart is empty.'' ''error'')
      \<and> orders (db (snd (ui_checkout w))) = orders (db w)
      \<and> cart_items (db (snd (ui_checkout w))) = cart_items (db w)
      \<and> products (db (snd (ui_checkout w))) = products (db w))"
proof (rule conjI; rule impI)
  assume "fst (get_cart_total w) = Inr 0"
  from checkout_zero [OF this]
  show "fst (ui_checkout w) = Inr (Redirect ''Cart is empty.'' ''error'')
      \<and> status_code (Redirect ''Cart is empty.'' ''error'') < 500
      \<and> db (snd (ui_checkout w)) = db w"
    by simp
next
  assume a: "all_ok (faults w) \<and> cart_total (db w) = 0"
  then have "fst (get_cart_total w) = Inr 0" using get_cart_total_ok [of w] by simp
  from checkout_zero [OF this]
  show "fst (ui_checkout w) = Inr (Redirect ''Cart is empty.'' ''error'')
      \<and> orders (db (snd (ui_checkout w))) = orders (db w)
      \<and> cart_items (db (snd (ui_checkout w))) = cart_items (db w)
      \<and> products (db (snd (ui_checkout w))) = products (db w)"
    by simp
qed

text \<open>C5 on the seeded database, whose cart is empty.\<close>

theorem checkout_empty_cart_witness:
  "fst (get_cart_total (world_of seeded_store [])) = Inr 0
   \<and> fst (ui_checkout (world_of seeded_store [])) = Inr (Redirect ''Cart is empty.'' ''error'')
   \<and> db (snd (ui_checkout (world_of seeded_store []))) = seeded_store"
proof -
  have a: "all_ok (faults (world_of seeded_store []))" by (simp add: world_of_def all_ok_def)
  have t: "fst (get_cart_total (world_of seeded_store [])) = Inr 0"
    using get_cart_total_ok [OF a] by (simp add: world_of_def seeded_store_total)
  from checkout_empty_cart [of "world_of seeded_store []"] t show ?thesis
    by (simp add: world_of_def)
qed


lemma total_query_fails:
  assumes "faults w = None # None # Some m # fs"
  shows "fst (get_cart_total w) = Inr 0"
proof -
  have n: "next_ok (faults w)" using assms by (simp add: next_ok_def)
  show ?thesis
    using assms
    by (auto simp add: get_cart_total_def get_db_def connect_with_retry_ok [OF n]
          cart_total_body_def prims body_prims
          split: list.splits option.splits sum.splits)
qed

text \<open>
  Claim C10: \<open>get_cart_total\<close> never raises; when its unit of work raises, it returns 0, the
  value of an empty cart. So when the connection and the cursor are obtained and the total
  query raises, the checkout answers "Cart is empty." whatever the cart holds, and the
  database is unchanged.
\<close>

theorem cart_total_never_raises:
  "(\<exists>t. fst (get_cart_total w) = Inr t)
   \<and> ((\<exists>e. fst (get_db cart_total_body w) = Inl e) \<longrightarrow> fst (get_cart_total w) = Inr 0)
   \<and> (\<forall>m fs. faults w = None # None # Some m # fs \<longrightarrow>
         fst (get_cart_total w) = Inr 0
         \<and> fst (ui_checkout w) = Inr (Redirect ''Cart is empty.'' ''error'')
         \<and> db (snd (ui_checkout w)) = db w)"
proof (intro conjI allI impI)
  show "\<exists>t. fst (get_cart_total w) = Inr t"
    by (cases "get_db cart_total_body w"; cases "fst (get_db cart_total_body w)")
       (auto simp add: get_cart_total_def try_except_def ret_def)
next
  assume "\<exists>e. fst (get_db cart_total_body w) = Inl e"
  then show "fst (get_cart_total w) = Inr 0"
    by (cases "get_db cart_total_body w") (auto simp add: get_cart_total_def try_except_def ret_def)
next
  fix m fs assume f: "faults w = None # None # Some m # fs"
  from total_query_fails [OF f] show "fst (get_cart_total w) = Inr 0" .
  from checkout_zero [OF total_query_fails [OF f]]
  show "fst (ui_checkout w) = Inr (Redirect ''Cart is empty.'' ''error'')"
    and "db (snd (ui_checkout w)) = db w" by simp_all
qed

text \<open>
  C10 with a cart worth 2,599.98: the connection and the cursor are obtained, the total query
  raises, and the checkout answers that the cart is empty; the cart row is still there.
\<close>

theorem cart_total_never_raises_witness:
  "0 < cart_total cart_store
   \<and> fst (get_cart_total (world_of cart_store [None, None, Some ''SQL0413N overflow''])) = Inr 0
   \<and> fst (ui_checkout (world_of cart_store [None, None, Some ''SQL0413N overflow''])) =
       Inr (Redirect ''Cart is empty.'' ''error'')
   \<and> cart_items (db (snd (ui_checkout (world_of cart_store [None, None, Some ''SQL0413N overflow''])))) =
       [\<lparr>c_id = 1, c_product_id = 3, c_quantity = 2\<rparr>]"
proof -
  let ?w = "world_of cart_store [None, None, Some ''SQL0413N overflow'']"
  have f: "faults ?w = None # None # Some ''SQL0413N overflow'' # []" by (simp add: world_of_def)
  from cart_total_never_raises [of ?w] f
  have "fst (get_cart_total ?w) = Inr 0
         \<and> fst (ui_checkout ?w) = Inr (Redirect ''Cart is empty.'' ''error'')
         \<and> db (snd (ui_checkout ?w)) = db ?w"
    by blast
  then show ?thesis
    by (simp add: cart_store_total) (simp add: world_of_def cart_store_def)
qed

subsection \<open>C2 and C9: adding to the cart\<close>

lemma add_to_cart_body_ok:
  assumes "all_ok (faults w1)" and "sessions w1 n = Some s"
  shows "fst (add_to_cart_body pid q (Conn n) w1) = Inr ()
         \<and> all_ok (faults (snd (add_to_cart_body pid q (Conn n) w1)))
         \<and> sessions (snd (add_to_cart_body pid q (Conn n) w1)) n = Some (add_effect pid q s)
         \<and> float_to_decimal (snd (add_to_cart_body pid q (Conn n) w1)) = float_to_decimal w1"
  using assms
  by (cases "filter (\<lambda>c. c_product_id c = pid) (cart_items s)")
     (simp_all add: add_to_cart_body_def ok_simps existing_row_def index_def add_effect_def)

lemma ui_add_to_cart_db:
  "db (snd (ui_add_to_cart pid f w)) = db w
   \<or> db (snd (ui_add_to_cart pid f w)) = add_effect pid (parse_quantity f) (db w)"
proof -
  let ?body = "add_to_cart_body pid (parse_quantity f)"
  obtain r w' where g: "get_db ?body w = (r, w')" by (cases "get_db ?body w")
  have frame: "db wb = db w1 \<and> (\<forall>v. rb = Inr v \<longrightarrow>
                  sessions wb n = Some (add_effect pid (parse_quantity f) (db w1)))"
    if "sessions w1 n = Some (db w1)" "?body (Conn n) w1 = (rb, wb)" for n w1 rb wb
    using add_to_cart_body_effect [OF that(2) that(1)] by auto
  have "db w' = db w \<or> db w' = add_effect pid (parse_quantity f) (db w)"
    using get_db_effect [of ?body "add_effect pid (parse_quantity f)", OF frame g] by blast
  then show ?thesis
    using g by (simp add: ui_add_to_cart_def handler_world)
qed

lemma ui_add_to_cart_ok:
  assumes "all_ok (faults w)"
  shows "fst (ui_add_to_cart pid f w) = Inr (Redirect (''Item added to cart '' @ check_mark) ''success'')
         \<and> all_ok (faults (snd (ui_add_to_cart pid f w)))
         \<and> db (snd (ui_add_to_cart pid f w)) = add_effect pid (parse_quantity f) (db w)"
proof -
  let ?body = "add_to_cart_body pid (parse_quantity f)"
  have "fst (get_db ?body w) = Inr ()
        \<and> all_ok (faults (snd (get_db ?body w)))
        \<and> db (snd (get_db ?body w)) = add_effect pid (parse_quantity f) (db w)
        \<and> float_to_decimal (snd (get_db ?body w)) = float_to_decimal w"
    using assms by (intro get_db_ok) (simp_all add: add_to_cart_body_ok)
  then show ?thesis
    by (simp add: ui_add_to_cart_def handler_world handler_result)
qed

lemma parse_quantity_ge: "1 \<le> parse_quantity f"
  by (simp add: parse_quantity_def Let_def split: option.splits)



lemma add_effect_product_ids:
  "map c_product_id (cart_items (add_effect pid q s)) =
     (if pid \<in> set (map c_product_id (cart_items s)) then map c_product_id (cart_items s)
      else map c_product_id (cart_items s) @ [pid])"
proof (cases "filter (\<lambda>c. c_product_id c = pid) (cart_items s)")
  case Nil
  then have "pid \<notin> set (map c_product_id (cart_items s))"
    by (auto simp add: filter_empty_conv)
  then show ?thesis using Nil by (simp add: add_effect_def insert_cart_item_def update_cart_quantity_def)
next
  case (Cons c cs)
  then have "c \<in> set (filter (\<lambda>c. c_product_id c = pid) (cart_items s))" by simp
  then have "pid \<in> set (map c_product_id (cart_items s))" by auto
  moreover have "map c_product_id (map (\<lambda>x. if IntV (c_id x) = i then x\<lparr>c_quantity := k\<rparr> else x) xs)
                 = map c_product_id xs" for i k xs
    by (induction xs) auto
  ultimately show ?thesis using Cons by (simp add: add_effect_def insert_cart_item_def update_cart_quantity_def)
qed


lemma add_effect_quantities:
  assumes "\<forall>c\<in>set (cart_items s). 1 \<le> c_quantity c" and "1 \<le> q"
  shows "\<forall>c\<in>set (cart_items (add_effect pid q s)). 1 \<le> c_quantity c"
proof (cases "filter (\<lambda>c. c_product_id c = pid) (cart_items s)")
  case Nil
  then show ?thesis using assms by (simp add: add_effect_def insert_cart_item_def update_cart_quantity_def)
next
  case (Cons c cs)
  then have "c \<in> set (filter (\<lambda>c. c_product_id c = pid) (cart_items s))" by simp
  then have "1 \<le> c_quantity c" using assms(1) by simp
  then show ?thesis using Cons assms by (auto simp add: add_effect_def insert_cart_item_def update_cart_quantity_def)
qed


lemma add_effect_has_row: "pid \<in> set (map c_product_id (cart_items (add_effect pid q s)))"
  by (simp add: add_effect_product_ids)

lemma parse_quantity_text:
  "parse_quantity (Some t) = (case py_int (strip t) of Some n \<Rightarrow> max 1 n | None \<Rightarrow> 1)"
  by (simp add: parse_quantity_def)


lemma py_int_examples:
  "py_int (strip ''2'') = Some 2" "py_int (strip ''3'') = Some 3" "py_int (strip ''0'') = Some 0"
  "py_int (strip ''-5'') = Some (-5)" "py_int (strip ''abc'') = None"
  by code_simp+




text \<open>
  Claim C9: the quantity of an add-to-cart request is at least 1 whatever the field holds; a
  text that is not an integer gives 1, an integer \<open>n\<close> gives \<open>max 1 n\<close>. The request is not
  rejected: when every driver call succeeds the answer is the success message and the cart
  has a row for the product. Whatever the driver calls do, when every cart row has a quantity
  of at least 1 before the add, every cart row has one after it: the rows the add inserts or
  updates, too.
\<close>

theorem quantity_at_least_one:
  "1 \<le> parse_quantity f
   \<and> (\<forall>t. py_int (strip t) = None \<longrightarrow> parse_quantity (Some t) = 1)
   \<and> (\<forall>t n. py_int (strip t) = Some n \<longrightarrow> parse_quantity (Some t) = max 1 n)
   \<and> (all_ok (faults w) \<longrightarrow>
        fst (ui_add_to_cart pid f w) = Inr (Redirect (''Item added to cart '' @ check_mark) ''success'')
        \<and> (\<exists>c\<in>set (cart_items (db (snd (ui_add_to_cart pid f w)))). c_product_id c = pid))
   \<and> ((\<forall>c\<in>set (cart_items (db w)). 1 \<le> c_quantity c) \<longrightarrow>
        (\<forall>c\<in>set (cart_items (db (snd (ui_add_to_cart pid f w)))). 1 \<le> c_quantity c))"
proof (intro conjI allI impI)
  show "1 \<le> parse_quantity f" by (rule parse_quantity_ge)
next
  fix t assume "py_int (strip t) = None"
  then show "parse_quantity (Some t) = 1" by (simp add: parse_quantity_text)
next
  fix t n assume "py_int (strip t) = Some n"
  then show "parse_quantity (Some t) = max 1 n" by (simp add: parse_quantity_text)
next
  assume a: "all_ok (faults w)"
  from ui_add_to_cart_ok [OF a, of pid f]
  show "fst (ui_add_to_cart pid f w) = Inr (Redirect (''Item added to cart '' @ check_mark) ''success'')"
    by simp
  from ui_add_to_cart_ok [OF a, of pid f] add_effect_has_row [of pid "parse_quantity f" "db w"]
  show "\<exists>c\<in>set (cart_items (db (snd (ui_add_to_cart pid f w)))). c_product_id c = pid"
    by auto
next
  assume "\<forall>c\<in>set (cart_items (db w)). 1 \<le> c_quantity c"
  then show "\<forall>c\<in>set (cart_items (db (snd (ui_add_to_cart pid f w)))). 1 \<le> c_quantity c"
    using ui_add_to_cart_db [of pid f w]
      add_effect_quantities [of "db w" "parse_quantity f" pid] parse_quantity_ge [of f]
    by auto
qed

text \<open>C9 at the fields "abc" and "-5".\<close>

theorem quantity_at_least_one_witness:
  "parse_quantity (Some ''abc'') = 1 \<and> parse_quantity (Some ''-5'') = 1
   \<and> fst (ui_add_to_cart 3 (Some ''abc'') (world_of seeded_store [])) =
       Inr (Redirect (''Item added to cart '' @ check_mark) ''success'')
   \<and> list_all (\<lambda>c. 1 \<le> c_quantity c)
         (cart_items (db (snd (ui_add_to_cart 3 (Some ''-5'') (world_of cart_store [])))))"
proof -
  have a: "all_ok (faults (world_of seeded_store []))" by (simp add: world_of_def all_ok_def)
  have q: "\<forall>c\<in>set (cart_items (db (world_of cart_store []))). 1 \<le> c_quantity c"
    by (simp add: world_of_def cart_store_def)
  from quantity_at_least_one [of "Some ''abc''" "world_of seeded_store []" 3]
    quantity_at_least_one [of "Some ''-5''" "world_of cart_store []" 3] a q py_int_examples
  show ?thesis by (simp add: list_all_iff)
qed

subsection \<open>C3: the unit of work of \<open>get_db\<close>\<close>

text \<open>
  Claim C3. A unit of work is a body run under \<open>get_db\<close> on a connection \<open>c\<close> that was
  acquired; \<open>wb\<close> is the world when the body ends, \<open>s\<close> the pending state of the
  connection there, \<open>w'\<close> the world when \<open>get_db\<close> returns.
  \<^item> The body completes normally and the commit does not raise: the pending state is the
    committed database, the driver calls after the body are the commit and the close, and
    the value of the body is returned when the close does not raise.
  \<^item> The body raises: nothing is committed, the driver calls after the body are the rollback
    and the close, an exception propagates, and it is the exception of the body when
    neither the rollback nor the close raises.
  \<^item> The commit raises: nothing is committed, the rollback and the close follow, and an
    exception propagates (that of the commit when the rollback and the close do not raise).
  \<^item> In every case, also when the commit or the rollback raises, the last driver call before
    control returns is the close of \<open>c\<close>; when the close itself does not raise, \<open>c\<close> is
    no longer open.
\<close>

theorem get_db_unit_of_work:
  assumes "connect_with_retry 5 5 w = (Inr c, w1)"
    and "body c w1 = (rb, wb)"
    and "sessions wb (conn_id c) = Some s"
    and "get_db body w = (r, w')"
  shows "(\<forall>v. rb = Inr v \<and> next_ok (faults wb) \<longrightarrow>
            db w' = s \<and> (\<exists>y. trace w' = trace wb @ [(Commit c, None), (Close c, y)])
            \<and> (next_ok (tl (faults wb)) \<longrightarrow> r = Inr v))
    \<and> (\<forall>e. rb = Inl e \<longrightarrow>
            db w' = db wb \<and> (\<exists>x y. trace w' = trace wb @ [(Rollback c, x), (Close c, y)])
            \<and> (\<exists>e'. r = Inl e')
            \<and> (next_ok (faults wb) \<and> next_ok (tl (faults wb)) \<longrightarrow> r = Inl e))
    \<and> (\<forall>v m fs. rb = Inr v \<and> faults wb = Some m # fs \<longrightarrow>
            db w' = db wb
            \<and> (\<exists>x y. trace w' = trace wb @ [(Commit c, Some m), (Rollback c, x), (Close c, y)])
            \<and> (\<exists>e'. r = Inl e')
            \<and> (next_ok fs \<and> next_ok (tl fs) \<longrightarrow> r = Inl (Exception m)))
    \<and> fst (last (trace w')) = Close c
    \<and> (snd (last (trace w')) = None \<longrightarrow> sessions w' (conn_id c) = None)"
proof -
  obtain n where c: "c = Conn n" by (cases c)
  show ?thesis
    using assms unfolding c
    by (auto simp add: get_db_def prims next_ok_def split: list.splits option.splits sum.splits)
qed

text \<open>
  C3 with the add-to-cart transaction as the body: once with every driver call succeeding,
  once with the SELECT of the body raising.
\<close>

theorem get_db_unit_of_work_witness:
  "fst (get_db (add_to_cart_body 3 2) (world_of seeded_store [])) = Inr ()
   \<and> db (snd (get_db (add_to_cart_body 3 2) (world_of seeded_store []))) = add_effect 3 2 seeded_store
   \<and> fst (last (trace (snd (get_db (add_to_cart_body 3 2) (world_of seeded_store []))))) = Close (Conn 0)
   \<and> fst (get_db (add_to_cart_body 3 2) (world_of seeded_store [None, None, Some ''SQL0911N deadlock'']))
       = Inl (Exception ''SQL0911N deadlock'')
   \<and> db (snd (get_db (add_to_cart_body 3 2) (world_of seeded_store [None, None, Some ''SQL0911N deadlock''])))
       = seeded_store
   \<and> fst (last (trace (snd (get_db (add_to_cart_body 3 2)
         (world_of seeded_store [None, None, Some ''SQL0911N deadlock'']))))) = Close (Conn 0)"
proof -
  let ?body = "add_to_cart_body 3 2"
  let ?w = "world_of seeded_store []"
  let ?w1 = "snd (connect_with_retry 5 5 ?w)"
  let ?wb = "snd (?body (Conn 0) ?w1)"
  have c: "connect_with_retry 5 5 ?w = (Inr (Conn 0), ?w1)"
    by (simp add: connect_with_retry_ok next_ok_def world_of_def)
  have w1: "all_ok (faults ?w1)" "sessions ?w1 0 = Some seeded_store"
    by (simp_all add: connect_with_retry_ok next_ok_def world_of_def all_ok_def)
  note b = add_to_cart_body_ok [OF w1, of 3 2]
  have h2: "?body (Conn 0) ?w1 = (Inr (), ?wb)"
    using b by (cases "?body (Conn 0) ?w1") simp
  have h3: "sessions ?wb (conn_id (Conn 0)) = Some (add_effect 3 2 seeded_store)"
    using b by simp
  have h4: "get_db ?body ?w = (fst (get_db ?body ?w), snd (get_db ?body ?w))" by simp
  have n: "next_ok (faults ?wb)" "next_ok (tl (faults ?wb))"
    using b by (simp_all add: all_ok_next all_ok_tl)
  from get_db_unit_of_work [OF c h2 h3 h4] n
  have ok: "fst (get_db ?body ?w) = Inr ()
      \<and> db (snd (get_db ?body ?w)) = add_effect 3 2 seeded_store
      \<and> fst (last (trace (snd (get_db ?body ?w)))) = Close (Conn 0)"
    by simp
  let ?v = "world_of seeded_store [None, None, Some ''SQL0911N deadlock'']"
  let ?v1 = "snd (connect_with_retry 5 5 ?v)"
  let ?vb = "snd (?body (Conn 0) ?v1)"
  have c': "connect_with_retry 5 5 ?v = (Inr (Conn 0), ?v1)"
    by (simp add: connect_with_retry_ok next_ok_def world_of_def)
  have v1: "?v1 = \<lparr>db = seeded_store, sessions = [0 \<mapsto> seeded_store], next_conn = 1, result_set = [],
                  float_to_decimal = (\<lambda>t. t),
                  faults = [None, Some ''SQL0911N deadlock''], trace = [(Connect, None)]\<rparr>"
    by (simp add: connect_with_retry_ok next_ok_def world_of_def)
  have vb: "?body (Conn 0) ?v1 = (Inl (Exception ''SQL0911N deadlock''), ?vb)"
    "sessions ?vb 0 = Some seeded_store" "faults ?vb = []" "db ?vb = seeded_store"
    unfolding v1 by (simp_all add: add_to_cart_body_def body_prims)
  have g3: "sessions ?vb (conn_id (Conn 0)) = Some seeded_store" using vb(2) by simp
  have g4: "get_db ?body ?v = (fst (get_db ?body ?v), snd (get_db ?body ?v))" by simp
  from get_db_unit_of_work [OF c' vb(1) g3 g4] vb(3,4)
  have bad: "fst (get_db ?body ?v) = Inl (Exception ''SQL0911N deadlock'')
      \<and> db (snd (get_db ?body ?v)) = seeded_store
      \<and> fst (last (trace (snd (get_db ?body ?v)))) = Close (Conn 0)"
    by (simp add: next_ok_def)
  from ok bad show ?thesis by simp
qed

lemma is_sleep_filter_append:
  "\<not> is_sleep ev \<Longrightarrow> filter is_sleep (tr @ [ev]) = filter is_sleep tr"
  by simp

subsection \<open>C8: the readiness probe\<close>

text \<open>
  Claim C8: \<open>ready\<close> makes exactly one connection attempt and never sleeps, whatever the
  driver calls do. When every driver call of the probe succeeds, the answer is HTTP 200 with
  status "ready" and db "connected"; when the connection attempt raises, the answer is HTTP
  503 with status "not ready" and the text of the error.
\<close>

theorem ready_single_attempt:
  "attempts (trace (snd (ready w))) = Suc (attempts (trace w))
   \<and> filter is_sleep (trace (snd (ready w))) = filter is_sleep (trace w)
   \<and> (all_ok (faults w) \<longrightarrow>
        fst (ready w) = Inr (Json [(''status'', ''ready''), (''db'', ''connected'')] 200))
   \<and> (\<forall>m fs. faults w = Some m # fs \<longrightarrow>
        fst (ready w) = Inr (Json [(''status'', ''not ready''), (''db'', m)] 503))"
proof (intro conjI allI impI)
  show "attempts (trace (snd (ready w))) = Suc (attempts (trace w))"
    by (auto simp add: ready_def connect_def try_except_def close.simps body_prims attempts_def
          split: list.splits option.splits sum.splits)
  show "filter is_sleep (trace (snd (ready w))) = filter is_sleep (trace w)"
    by (auto simp add: ready_def connect_def try_except_def close.simps body_prims
          split: list.splits option.splits sum.splits)
next
  assume "all_ok (faults w)"
  then show "fst (ready w) = Inr (Json [(''status'', ''ready''), (''db'', ''connected'')] 200)"
    by (simp add: ready_def connect_def ok_simps)
next
  fix m fs assume "faults w = Some m # fs"
  then show "fst (ready w) = Inr (Json [(''status'', ''not ready''), (''db'', m)] 503)"
    by (simp add: ready_def connect_def driver_call_raises try_except_def and_then_def ret_def)
qed

text \<open>C8 on a reachable and on an unreachable database.\<close>

theorem ready_single_attempt_witness:
  "fst (ready (world_of seeded_store [])) = Inr (Json [(''status'', ''ready''), (''db'', ''connected'')] 200)
   \<and> fst (ready (world_of seeded_store [Some ''SQL30081N'', None])) =
       Inr (Json [(''status'', ''not ready''), (''db'', ''SQL30081N'')] 503)
   \<and> attempts (trace (snd (ready (world_of seeded_store [Some ''SQL30081N'', None])))) = 1"
proof -
  have a: "all_ok (faults (world_of seeded_store []))" by (simp add: world_of_def all_ok_def)
  have f: "faults (world_of seeded_store [Some ''SQL30081N'', None]) = Some ''SQL30081N'' # [None]"
    by (simp add: world_of_def)
  from ready_single_attempt [of "world_of seeded_store []"] a
    ready_single_attempt [of "world_of seeded_store [Some ''SQL30081N'', None]"] f
  show ?thesis by (simp add: world_of_def attempts_def)
qed

subsection \<open>The create-table helper by itself\<close>

text \<open>
  \<open>_create_table_if_not_exists\<close> called with its three arguments, which \<open>init_db\<close>
  never does: when the CREATE TABLE statement succeeds, so does the function; when it raises
  an error whose text has the vendor code of "object already exists" (SQL0601N or -601),
  the error is swallowed and what follows the call runs; every other error of the statement
  propagates to the caller unchanged.
\<close>

theorem create_table_swallows_exists:
  "(\<forall>w1. execute cur q w = (Inr (), w1) \<longrightarrow>
        create_table_if_not_exists cur q t w = (Inr (), w1))
   \<and> (\<forall>e w1. execute cur q w = (Inl e, w1) \<and> already_exists (str_of_exn e) \<longrightarrow>
        create_table_if_not_exists cur q t w = (Inr (), w1)
        \<and> and_then (create_table_if_not_exists cur q t) k w = k () w1)
   \<and> (\<forall>e w1. execute cur q w = (Inl e, w1) \<and> \<not> already_exists (str_of_exn e) \<longrightarrow>
        create_table_if_not_exists cur q t w = (Inl e, w1))
   \<and> (\<forall>m fs. faults w = Some m # fs \<longrightarrow>
        fst (create_table_if_not_exists cur q t w) =
          (if already_exists m then Inr () else Inl (Exception m)))"
proof (intro conjI allI impI)
  fix w1 assume "execute cur q w = (Inr (), w1)"
  then show "create_table_if_not_exists cur q t w = (Inr (), w1)"
    by (simp add: create_table_if_not_exists_def try_except_def)
next
  fix e w1 assume a: "execute cur q w = (Inl e, w1) \<and> already_exists (str_of_exn e)"
  then show c: "create_table_if_not_exists cur q t w = (Inr (), w1)"
    by (simp add: create_table_if_not_exists_def try_except_def already_exists_def ret_def)
  show "and_then (create_table_if_not_exists cur q t) k w = k () w1"
    by (simp add: and_then_def c)
next
  fix e w1 assume "execute cur q w = (Inl e, w1) \<and> \<not> already_exists (str_of_exn e)"
  then show "create_table_if_not_exists cur q t w = (Inl e, w1)"
    by (simp add: create_table_if_not_exists_def try_except_def already_exists_def raise_def)
next
  fix m fs assume f: "faults w = Some m # fs"
  obtain cn where "cur = Cursor cn" by (cases cur)
  moreover obtain n where "cn = Conn n" by (cases cn)
  ultimately have cur: "cur = Cursor (Conn n)" by simp
  show "fst (create_table_if_not_exists cur q t w) =
          (if already_exists m then Inr () else Inl (Exception m))"
    using f
    by (simp add: create_table_if_not_exists_def try_except_def already_exists_def raise_def ret_def
          cur driver_call_raises)
qed

lemma marker_examples:
  "already_exists ''SQL0601N  The name of the object to be created is identical to the existing name''"
  "already_exists ''SQLSTATE=42710 SQLCODE=-601''"
  "\<not> already_exists ''SQL0551N  The statement failed because the authorization ID does not have the required privilege''"
  by code_simp+

text \<open>The helper at an SQL0601N error and at an authorization error.\<close>

theorem create_table_swallows_exists_witness:
  "fst (create_table_if_not_exists (Cursor (Conn 0)) (CreateTable ''products'') ''products''
         (world_of seeded_store
            [Some ''SQL0601N  The name of the object to be created is identical to the existing name''])) = Inr ()
   \<and> fst (create_table_if_not_exists (Cursor (Conn 0)) (CreateTable ''products'') ''products''
         (world_of seeded_store
            [Some ''SQL0551N  The statement failed because the authorization ID does not have the required privilege'']))
       = Inl (Exception ''SQL0551N  The statement failed because the authorization ID does not have the required privilege'')"
proof -
  let ?a = "''SQL0601N  The name of the object to be created is identical to the existing name''"
  let ?b = "''SQL0551N  The statement failed because the authorization ID does not have the required privilege''"
  have fa: "faults (world_of seeded_store [Some ?a]) = Some ?a # []"
    and fb: "faults (world_of seeded_store [Some ?b]) = Some ?b # []"
    by (simp_all add: world_of_def)
  from create_table_swallows_exists
         [of "Cursor (Conn 0)" "CreateTable ''products''" "world_of seeded_store [Some ?a]" "''products''"] fa
  have a: "fst (create_table_if_not_exists (Cursor (Conn 0)) (CreateTable ''products'') ''products''
               (world_of seeded_store [Some ?a])) =
           (if already_exists ?a then Inr () else Inl (Exception ?a))"
    by blast
  from create_table_swallows_exists
         [of "Cursor (Conn 0)" "CreateTable ''products''" "world_of seeded_store [Some ?b]" "''products''"] fb
  have b: "fst (create_table_if_not_exists (Cursor (Conn 0)) (CreateTable ''products'') ''products''
               (world_of seeded_store [Some ?b])) =
           (if already_exists ?b then Inr () else Inl (Exception ?b))"
    by blast
  show ?thesis
    using a b marker_examples by simp
qed

subsection \<open>C6 and C7: schema initialisation\<close>

lemma init_db_body_raises: "\<exists>e. fst (init_db_body c w1) = Inl e"
  by (cases c)
     (auto simp add: init_db_body_def call_create_table_if_not_exists_2_def body_prims
           split: list.splits option.splits)

text \<open>
  \<open>init_db\<close> never completes normally: when a connection is acquired and a cursor obtained,
  the first call of \<open>_create_table_if_not_exists\<close> raises the TypeError of its missing
  argument.
\<close>

theorem init_db_always_raises: "\<exists>e. fst (init_db w) = Inl e"
proof -
  obtain rc w1 where c: "connect_with_retry 5 5 w = (rc, w1)"
    by (cases "connect_with_retry 5 5 w")
  show ?thesis
  proof (cases rc)
    case (Inl e)
    then show ?thesis using c by (simp add: init_db_def get_db_def and_then_def)
  next
    case (Inr cn)
    obtain n where n: "cn = Conn n" by (cases cn)
    obtain e wb where b: "init_db_body (Conn n) w1 = (Inl e, wb)"
      using init_db_body_raises [of "Conn n" w1] by (cases "init_db_body (Conn n) w1") auto
    show ?thesis
      using c Inr n b
      by (auto simp add: init_db_def get_db_def prims split: list.splits option.splits sum.splits)
  qed
qed

text \<open>
  Claim C6 says that initialising an initialised database raises no error. On the database
  with the eight seed rows, with every driver call succeeding, \<open>init_db\<close> raises the
  TypeError; no statement is executed, the unit of work is rolled back and the database is
  unchanged.
\<close>

theorem init_db_type_error:
  "fst (init_db (world_of seeded_store [])) =
     Inl (TypeError (''_create_table_if_not_exists() missing 1 required positional argument: ''
                     @ [CHR 0x27] @ ''table_name'' @ [CHR 0x27]))
   \<and> db (snd (init_db (world_of seeded_store []))) = seeded_store
   \<and> trace (snd (init_db (world_of seeded_store []))) =
       [(Connect, None), (MkCursor (Conn 0), None), (Rollback (Conn 0), None), (Close (Conn 0), None)]"
  by (simp add: init_db_def get_db_def connect_with_retry_ok next_ok_def world_of_def
        init_db_body_def call_create_table_if_not_exists_2_def prims body_prims try_except_def)

text \<open>The retry loop executes no statement.\<close>

lemma connect_no_execute:
  "filter is_execute (trace (snd (connect w))) = filter is_execute (trace w)"
  by (auto simp add: connect_def driver_call_def next_fault_def log_call_def is_execute_def
           split: list.splits option.splits)

lemma retry_loop_no_execute:
  "filter is_execute (trace (snd (retry_loop xs r d e0 w))) = filter is_execute (trace w)"
proof (induction xs arbitrary: w e0)
  case Nil
  then show ?case by simp
next
  case (Cons a xs)
  obtain rc w1 where c: "connect w = (rc, w1)" by (cases "connect w")
  then have t1: "filter is_execute (trace w1) = filter is_execute (trace w)"
    using connect_no_execute [of w] by simp
  have t2: "filter is_execute (trace (log_call (Sleep d) None w1)) = filter is_execute (trace w)"
    using t1 by (simp add: log_call_def is_execute_def)
  show ?case
  proof (cases rc)
    case (Inr cn)
    then show ?thesis using c t1 by simp
  next
    case (Inl exc)
    then show ?thesis
      using c t1 t2 Cons.IH [of exc w1] Cons.IH [of exc "log_call (Sleep d) None w1"]
      by (simp add: sleep_def)
  qed
qed

text \<open>
  Claim C7 says that during schema initialisation an "object already exists" error of a
  create-table operation is swallowed and initialisation continues. By the slip of C6, the
  call sites of \<open>init_db\<close> raise the TypeError before the helper is entered: whatever the
  driver calls do, \<open>init_db\<close> executes no statement at all, so no create-table operation is
  attempted and no error of one is swallowed, and it raises instead of continuing.
\<close>

theorem init_db_executes_nothing:
  "filter is_execute (trace (snd (init_db w))) = filter is_execute (trace w)
   \<and> (\<exists>e. fst (init_db w) = Inl e)"
proof
  obtain rc w1 where c: "connect_with_retry 5 5 w = (rc, w1)"
    by (cases "connect_with_retry 5 5 w")
  then have t: "filter is_execute (trace w1) = filter is_execute (trace w)"
    using retry_loop_no_execute [of "[0..<nat 5]" 5 5 "Exception ''Could not connect to Db2''" w]
    by (simp add: connect_with_retry_def)
  show "filter is_execute (trace (snd (init_db w))) = filter is_execute (trace w)"
  proof (cases rc)
    case (Inl e)
    then show ?thesis using c t by (simp add: init_db_def get_db_def and_then_def)
  next
    case (Inr cn)
    obtain n where n: "cn = Conn n" by (cases cn)
    show ?thesis
      using c Inr n t
      by (auto simp add: init_db_def get_db_def init_db_body_def
            call_create_table_if_not_exists_2_def prims body_prims is_execute_def
            split: list.splits option.splits sum.splits)
  qed
  show "\<exists>e. fst (init_db w) = Inl e" by (rule init_db_always_raises)
qed

text \<open>
  The same on an initialised database where the third driver call, the place of the first
  CREATE TABLE, would answer SQL0601N: the call it meets is the rollback after the TypeError.
\<close>

lemma init_db_exists_script:
  "trace (snd (init_db (world_of seeded_store
      [None, None, Some ''SQL0601N  The name of the object to be created is identical to the existing name'']))) =
     [(Connect, None), (MkCursor (Conn 0), None),
      (Rollback (Conn 0),
       Some ''SQL0601N  The name of the object to be created is identical to the existing name''),
      (Close (Conn 0), None)]
   \<and> fst (init_db (world_of seeded_store
      [None, None, Some ''SQL0601N  The name of the object to be created is identical to the existing name''])) =
     Inl (Exception ''SQL0601N  The name of the object to be created is identical to the existing name'')"
  by (simp add: init_db_def get_db_def connect_with_retry_ok next_ok_def world_of_def
        init_db_body_def call_create_table_if_not_exists_2_def prims body_prims try_except_def)

end
